theory Spec2Isabelle
  imports Main "HOL-Library.AList" "HOL-Library.Word"
begin

section \<open>Python values, documents, errors\<close>

text \<open>
  The values an event attribute or an output field can hold. Only the distinctions the
  output modules test for are kept: \<open>None\<close>, \<open>str\<close>, \<open>bytes\<close>, \<open>int\<close>, \<open>list\<close>, the two
  classes named in the \<open>isinstance\<close> checks of \<open>GetFieldValues\<close>, and any other object.
\<close>

datatype pyval =
    PyNone
  | PyStr string
  | PyBytes "8 word list"
  | PyInt int
  | PyList "pyval list"
  | AttributeContainerIdentifier
  | DateTimeValues
  | PyObject nat

text \<open>
  A \<open>dict[str, object]\<close> in insertion order: \<open>AList.update\<close> overwrites the value of a
  key that is present and appends a new key at the end, as item assignment does.
\<close>

type_synonym document = "(string \<times> pyval) list"

text \<open>
  The exceptions that can leave the output modules: the three the code itself can raise,
  and any other exception that a collaborator raises, by the name of its class.
\<close>

datatype error = TypeError | AttributeError | IndexError | Exception string

datatype log_entry = Debug string | Info string | Warning string

section \<open>Text formatting\<close>

text \<open>The format specification \<open>:d\<close> on an \<open>int\<close>: its decimal digits, with a sign.\<close>

fun str_nat :: "nat \<Rightarrow> string" where
  "str_nat n =
     (if n < 10 then [''0123456789'' ! n]
      else str_nat (n div 10) @ [''0123456789'' ! (n mod 10)])"

declare str_nat.simps [simp del]

definition str_int :: "int \<Rightarrow> string" where
  "str_int i = (if i < 0 then CHR ''-'' # str_nat (nat (- i)) else str_nat (nat i))"

text \<open>A replacement field without format specification applies \<open>str\<close>: \<open>None\<close> prints as its name.\<close>

definition str_opt :: "string option \<Rightarrow> string" where
  "str_opt v = (case v of None \<Rightarrow> ''None'' | Some s \<Rightarrow> s)"

text \<open>Truth value of an optional string: \<open>None\<close> and the empty string are false.\<close>

definition truthy :: "string option \<Rightarrow> bool" where
  "truthy v = (case v of None \<Rightarrow> False | Some s \<Rightarrow> s \<noteq> [])"

section \<open>The world outside the sink\<close>

text \<open>
  \<open>requests.post(url, json=..., timeout=...)\<close>: the request that was made, and what came
  of it: a response with its status code and body, a
  \<open>requests.exceptions.RequestException\<close> with its message, or any other exception, which
  the \<open>except\<close> clause of \<open>_FlushEvents\<close> does not catch.
\<close>

record http_request =
  post_url :: string
  post_json :: "document list"
  post_timeout :: int

datatype response = Response int string | RequestException string | Raised error

text \<open>
  The server is a parameter: it answers a request knowing the requests made before it.
\<close>

type_synonym transport = "http_request list \<Rightarrow> http_request \<Rightarrow> response"

text \<open>
  Before anything is sent, \<open>requests\<close> encodes the \<open>json\<close> argument with \<open>json.dumps\<close>, which
  raises \<open>TypeError\<close> on a value that is not \<open>None\<close>, a string, a number or a list of such
  (the keys of a document are strings). \<open>TypeError\<close> is not a \<open>RequestException\<close>.
\<close>

fun json_encodable :: "pyval \<Rightarrow> bool" where
  "json_encodable PyNone = True"
| "json_encodable (PyStr s) = True"
| "json_encodable (PyInt i) = True"
| "json_encodable (PyList values) = list_all json_encodable values"
| "json_encodable (PyBytes b) = False"
| "json_encodable AttributeContainerIdentifier = False"
| "json_encodable DateTimeValues = False"
| "json_encodable (PyObject n) = False"

definition json_document :: "document \<Rightarrow> bool" where
  "json_document field_values = list_all (\<lambda>(name, v). json_encodable v) field_values"

definition requests_post :: "transport \<Rightarrow> http_request list \<Rightarrow> http_request \<Rightarrow> response" where
  "requests_post post history request =
     (if list_all json_document (post_json request) then post history request
      else Raised TypeError)"

text \<open>
  What the sinks share with their surroundings: the list objects that hold field names,
  by address (a class attribute and every instance attribute bound to it name the same
  address), the requests posted so far, and the messages given to the logger.
\<close>

record world =
  lists :: "nat \<Rightarrow> string list"
  requests_posted :: "http_request list"
  logged :: "log_entry list"

definition log :: "log_entry \<Rightarrow> world \<Rightarrow> world" where
  "log entry w = w\<lparr>logged := logged w @ [entry]\<rparr>"

section \<open>SharedFluentBitOutputModule\<close>

definition DEFAULT_FLUSH_INTERVAL :: int where
  "DEFAULT_FLUSH_INTERVAL = 1000"

definition DEFAULT_REQUEST_TIMEOUT :: int where
  "DEFAULT_REQUEST_TIMEOUT = 300"

text \<open>
  The class attribute \<open>_DEFAULT_FIELD_NAMES\<close> is bound to one list object, created when the
  class body runs: \<open>class_body\<close> is the world right after that.
\<close>

definition DEFAULT_FIELD_NAMES :: nat where
  "DEFAULT_FIELD_NAMES = 0"

definition class_body :: world where
  "class_body =
     \<lparr>lists = (\<lambda>_. [])(DEFAULT_FIELD_NAMES :=
        [''datetime'', ''display_name'', ''message'', ''source_long'', ''source_short'',
         ''tag'', ''timestamp'', ''timestamp_desc'']),
      requests_posted = [],
      logged = []\<rparr>"

text \<open>
  The instance attributes. \<open>field_names\<close> is a reference to a list object of the world;
  the buffer \<open>event_documents\<close> is rebound to a fresh list by every flush and is held by value.
  \<open>__init__\<close> binds \<open>_field_names\<close> to the object the class attribute names: no list is copied.
\<close>

record sink =
  custom_fields :: document
  event_documents :: "document list"
  field_names :: nat
  flush_interval :: int
  host :: "string option"
  index_name :: "string option"
  number_of_buffered_events :: int
  port :: "int option"
  url_prefix :: "string option"

definition SharedFluentBitOutputModule_init :: "world \<Rightarrow> world \<times> sink" where
  "SharedFluentBitOutputModule_init w =
     (w, \<lparr>custom_fields = [],
          event_documents = [],
          field_names = DEFAULT_FIELD_NAMES,
          flush_interval = DEFAULT_FLUSH_INTERVAL,
          host = None,
          index_name = None,
          number_of_buffered_events = 0,
          port = None,
          url_prefix = None\<rparr>)"

definition SetIndexName :: "string \<Rightarrow> world \<Rightarrow> 'a sink_scheme \<Rightarrow> world \<times> 'a sink_scheme" where
  "SetIndexName name w self =
     (log (Debug (''Fluent Bit index name: '' @ name)) w, self\<lparr>index_name := Some name\<rparr>)"

definition SetFlushInterval :: "int \<Rightarrow> world \<Rightarrow> 'a sink_scheme \<Rightarrow> world \<times> 'a sink_scheme" where
  "SetFlushInterval interval w self =
     (log (Debug (''Fluent Bit flush interval: '' @ str_int interval)) w,
      self\<lparr>flush_interval := interval\<rparr>)"

definition SetServerInformation ::
  "string \<Rightarrow> int \<Rightarrow> world \<Rightarrow> 'a sink_scheme \<Rightarrow> world \<times> 'a sink_scheme" where
  "SetServerInformation server port_number w self =
     (log (Debug (''Fluent Bit server: '' @ server @ '' port: '' @ str_int port_number)) w,
      self\<lparr>host := Some server, port := Some port_number\<rparr>)"

definition SetURLPrefix ::
  "string option \<Rightarrow> world \<Rightarrow> 'a sink_scheme \<Rightarrow> world \<times> 'a sink_scheme" where
  "SetURLPrefix prefix w self =
     (log (Debug (''Fluent Bit URL prefix: '' @ str_opt prefix)) w,
      self\<lparr>url_prefix := prefix\<rparr>)"

text \<open>
  \<open>_FlushEvents\<close>. An empty buffer returns at once. The port is formatted with \<open>:d\<close>, which
  raises \<open>TypeError\<close> on \<open>None\<close>. One request is posted. A response or a
  \<open>RequestException\<close> decides the log entry only, and the two assignments after the \<open>try\<close>
  statement run; any other exception leaves \<open>_FlushEvents\<close> with the buffer as it was.
  An exception is returned with the world and the sink it leaves behind.
\<close>

definition flush_url :: "'a sink_scheme \<Rightarrow> int \<Rightarrow> string" where
  "flush_url self p =
     (let url = ''http://'' @ str_opt (host self) @ '':'' @ str_int p
      in if truthy (url_prefix self) then url @ ''/'' @ str_opt (url_prefix self) else url)"

definition response_log :: "'a sink_scheme \<Rightarrow> int \<Rightarrow> string \<Rightarrow> log_entry" where
  "response_log self status_code text =
     (if status_code \<noteq> 200 \<and> status_code \<noteq> 201
      then Warning (''Unable to send events to Fluent Bit. Status code: ''
              @ str_int status_code @ '', Response: '' @ text)
      else Debug (''Inserted '' @ str_int (number_of_buffered_events self)
              @ '' events into Fluent Bit''))"

definition FlushEvents ::
  "transport \<Rightarrow> world \<Rightarrow> 'a sink_scheme
     \<Rightarrow> error \<times> world \<times> 'a sink_scheme + world \<times> 'a sink_scheme" where
  "FlushEvents post w self =
     (if event_documents self = [] then Inr (w, self)
      else case port self of
        None \<Rightarrow> Inl (TypeError, w, self)
      | Some p \<Rightarrow>
         (let request = \<lparr>post_url = flush_url self p,
                         post_json = event_documents self,
                         post_timeout = DEFAULT_REQUEST_TIMEOUT\<rparr>;
              sent = w\<lparr>requests_posted := requests_posted w @ [request]\<rparr>;
              emptied = self\<lparr>event_documents := [], number_of_buffered_events := 0\<rparr>
          in (case requests_post post (requests_posted w) request of
                Response status_code text \<Rightarrow>
                  Inr (log (response_log self status_code text) sent, emptied)
              | RequestException exception \<Rightarrow>
                  Inr (log (Warning (''Unable to send events with error: '' @ exception)) sent,
                       emptied)
              | Raised e \<Rightarrow> Inl (e, w, self))))"

definition Close ::
  "transport \<Rightarrow> world \<Rightarrow> 'a sink_scheme
     \<Rightarrow> error \<times> world \<times> 'a sink_scheme + world \<times> 'a sink_scheme" where
  "Close post w self = FlushEvents post w self"





text \<open>
  \<open>_SanitizeField\<close>. \<open>bytes.decode('utf-8', 'replace')\<close> belongs to the language and is the
  parameter \<open>decode\<close>; a bytes value is decoded and a warning is logged, any other value is
  returned as it is.
\<close>

definition SanitizeField ::
  "(8 word list \<Rightarrow> string) \<Rightarrow> string \<Rightarrow> string \<Rightarrow> pyval \<Rightarrow> world \<Rightarrow> world \<times> pyval" where
  "SanitizeField decode data_type_name attribute_name field w =
     (case field of
        PyBytes b \<Rightarrow>
          (let text = decode b
           in (log (Warning (''Found bytes value for attribute: '' @ attribute_name
                      @ '' of data type: '' @ data_type_name
                      @ ''. Value was converted to UTF-8: '' @ [CHR 0x22] @ text @ [CHR 0x22])) w,
               PyStr text))
      | _ \<Rightarrow> (w, field))"

section \<open>GetFieldValues\<close>













section \<open>FluentBitOutputModule\<close>

definition WriteFieldValues ::
  "transport \<Rightarrow> 'm \<Rightarrow> document \<Rightarrow> world \<Rightarrow> sink
     \<Rightarrow> error \<times> world \<times> sink + world \<times> sink" where
  "WriteFieldValues post output_mediator field_values w self =
     (let field_values =
            (if truthy (index_name self)
             then AList.update ''__ts_searchindex'' (PyStr (str_opt (index_name self))) field_values
             else field_values);
          self = self\<lparr>event_documents := event_documents self @ [field_values]\<rparr>;
          self = self\<lparr>number_of_buffered_events := number_of_buffered_events self + 1\<rparr>
      in if number_of_buffered_events self > flush_interval self
         then FlushEvents post w self else Inr (w, self))"

text \<open>
  The caller writes one record after the other; an exception ends the run.
\<close>

fun write_records ::
  "transport \<Rightarrow> 'm \<Rightarrow> document list \<Rightarrow> world \<Rightarrow> sink
     \<Rightarrow> error \<times> world \<times> sink + world \<times> sink" where
  "write_records post output_mediator [] w self = Inr (w, self)"
| "write_records post output_mediator (field_values # rest) w self =
     (case WriteFieldValues post output_mediator field_values w self of
        Inl e \<Rightarrow> Inl e
      | Inr (w, self) \<Rightarrow> write_records post output_mediator rest w self)"

section \<open>FluentBitTimesketchOutputModule\<close>

record ts_sink = sink +
  timeline_identifier :: "int option"

definition FluentBitTimesketchOutputModule_init :: "world \<Rightarrow> world \<times> ts_sink" where
  "FluentBitTimesketchOutputModule_init w =
     (case SharedFluentBitOutputModule_init w of
        (w, self) \<Rightarrow> (w, sink.extend self (ts_sink.fields None)))"



text \<open>\<open>not self._timeline_identifier\<close> is true for \<open>None\<close> and for \<open>0\<close>.\<close>

definition GetMissingArguments :: "ts_sink \<Rightarrow> string list" where
  "GetMissingArguments self =
     (if (case timeline_identifier self of None \<Rightarrow> True | Some i \<Rightarrow> i = 0)
      then [''timeline_id''] else [])"

definition SetTimelineIdentifier :: "int \<Rightarrow> world \<Rightarrow> ts_sink \<Rightarrow> world \<times> ts_sink" where
  "SetTimelineIdentifier identifier w self =
     (let self = self\<lparr>timeline_identifier := Some identifier\<rparr>
      in (log (Info (''Timeline identifier: '' @ str_int identifier)) w, self))"

section \<open>FluentBitTimesketchOutputArgumentsHelper\<close>

text \<open>
  Lines 59 to 62 of \<open>ParseOptions\<close>, from the value that \<open>_ParseNumericOption\<close> has parsed
  for \<open>timeline_id\<close> (an integer, or \<open>None\<close> when the option was not given): the identifier
  is set only when it is true, that is neither \<open>None\<close> nor 0.
\<close>

definition ParseOptions_timeline_id :: "int option \<Rightarrow> world \<Rightarrow> ts_sink \<Rightarrow> world \<times> ts_sink" where
  "ParseOptions_timeline_id parsed w output_module =
     (case parsed of
        None \<Rightarrow> (w, output_module)
      | Some i \<Rightarrow>
          if i \<noteq> 0 then SetTimelineIdentifier i w output_module else (w, output_module))"

section \<open>Notions used to state the properties\<close>

text \<open>
  The document as \<open>WriteFieldValues\<close> of the base sink buffers it (lines 22 and 23).
\<close>

definition stamped :: "sink \<Rightarrow> document \<Rightarrow> document" where
  "stamped self field_values =
     (if truthy (index_name self)
      then AList.update ''__ts_searchindex'' (PyStr (str_opt (index_name self))) field_values
      else field_values)"

text \<open>
  The state of a sink between two writes: the counter is the length of the buffer, which is
  at most the flush interval, the port has been set, and the buffered documents are ones
  that \<open>json.dumps\<close> encodes.
\<close>

definition buffering :: "int \<Rightarrow> int \<Rightarrow> sink \<Rightarrow> bool" where
  "buffering N p self \<longleftrightarrow>
     flush_interval self = N \<and> port self = Some p \<and>
     number_of_buffered_events self = int (length (event_documents self)) \<and>
     int (length (event_documents self)) \<le> N \<and>
     list_all json_document (event_documents self)"

text \<open>
  A server from which \<open>requests.post\<close> returns a response or raises a \<open>RequestException\<close>,
  and nothing else.
\<close>

definition answers :: "transport \<Rightarrow> bool" where
  "answers post \<longleftrightarrow> (\<forall>history request e. post history request \<noteq> Raised e)"





section \<open>Example collaborators and records\<close>

text \<open>
  Instances of the parameters, for the concrete runs below: a server that accepts every
  request and one that cannot be reached; a decoder that puts a question mark for every
  byte; a serializer that accepts objects only and raises \<open>TypeError\<close> on anything else; a
  formatting helper that reads the attribute of the event data, as
  \<open>getattr(event_data, name, None)\<close> does.
\<close>

definition accepting :: transport where
  "accepting history request = Response 200 ''ok''"

definition unreachable :: transport where
  "unreachable history request = RequestException ''Connection refused''"

definition question_marks :: "8 word list \<Rightarrow> string" where
  "question_marks b = replicate (length b) CHR ''?''"





definition configured :: sink where
  "configured =
     (case SharedFluentBitOutputModule_init class_body of (w, self) \<Rightarrow>
      case SetServerInformation ''localhost'' 9880 w self of (w, self) \<Rightarrow>
      case SetFlushInterval 2 w self of (w, self) \<Rightarrow> self)"

definition configured_ts :: ts_sink where
  "configured_ts =
     (case FluentBitTimesketchOutputModule_init class_body of (w, self) \<Rightarrow>
      case SetServerInformation ''localhost'' 9880 w self of (w, self) \<Rightarrow>
      case SetTimelineIdentifier 42 w self of (w, self) \<Rightarrow>
      case SetIndexName ''caseA'' w self of (w, self) \<Rightarrow> self)"


definition three_records :: "document list" where
  "three_records =
     [[(''message'', PyStr ''first'')], [(''message'', PyStr ''second'')],
      [(''message'', PyStr ''third'')]]"

section \<open>The buffer between two writes\<close>

lemma json_document_update:
  "json_document field_values \<Longrightarrow> json_encodable v \<Longrightarrow>
     json_document (AList.update name v field_values)"
  unfolding json_document_def
  by (induction field_values) (auto simp add: list_all_iff)

lemma json_document_stamped:
  "json_document field_values \<Longrightarrow> json_document (stamped self field_values)"
  by (simp add: stamped_def json_document_update)

lemma flush_url_buffer [simp]:
  "flush_url (self\<lparr>event_documents := ds, number_of_buffered_events := n\<rparr>) p = flush_url self p"
  by (simp add: flush_url_def Let_def)

lemma FlushEvents_empty:
  "event_documents self = [] \<Longrightarrow> FlushEvents post w self = Inr (w, self)"
  by (simp add: FlushEvents_def)

lemma FlushEvents_nonempty:
  assumes "event_documents self \<noteq> []" and "port self = Some p"
    and "list_all json_document (event_documents self)"
    and "\<forall>e. post (requests_posted w)
            \<lparr>post_url = flush_url self p, post_json = event_documents self,
              post_timeout = 300\<rparr> \<noteq> Raised e"
  shows "\<exists>entry.
    FlushEvents post w self =
      Inr (w\<lparr>requests_posted := requests_posted w @
                [\<lparr>post_url = flush_url self p, post_json = event_documents self,
                  post_timeout = 300\<rparr>],
              logged := logged w @ [entry]\<rparr>,
           self\<lparr>event_documents := [], number_of_buffered_events := 0\<rparr>) \<and>
    (case post (requests_posted w)
            \<lparr>post_url = flush_url self p, post_json = event_documents self,
              post_timeout = 300\<rparr> of
       Response status_code body \<Rightarrow>
         if status_code = 200 \<or> status_code = 201
         then (\<exists>m. entry = Debug m) else (\<exists>m. entry = Warning m)
     | RequestException m \<Rightarrow> (\<exists>m'. entry = Warning m')
     | Raised e \<Rightarrow> False)"
proof -
  let ?request = "\<lparr>post_url = flush_url self p, post_json = event_documents self,
                    post_timeout = 300\<rparr>"
  have sent: "requests_post post (requests_posted w) ?request = post (requests_posted w) ?request"
    using assms(3) by (simp add: requests_post_def)
  show ?thesis
  proof (cases "post (requests_posted w) ?request")
    case (Response status_code body)
    then have "FlushEvents post w self =
      Inr (w\<lparr>requests_posted := requests_posted w @ [?request],
              logged := logged w @ [response_log self status_code body]\<rparr>,
           self\<lparr>event_documents := [], number_of_buffered_events := 0\<rparr>)"
      using assms(1,2) sent
      by (simp add: FlushEvents_def Let_def log_def DEFAULT_REQUEST_TIMEOUT_def)
    moreover have "if status_code = 200 \<or> status_code = 201
         then (\<exists>m. response_log self status_code body = Debug m)
         else (\<exists>m. response_log self status_code body = Warning m)"
      by (simp add: response_log_def)
    ultimately show ?thesis
      by (intro exI [of _ "response_log self status_code body"]) (simp add: Response)
  next
    case (RequestException m)
    then have "FlushEvents post w self =
      Inr (w\<lparr>requests_posted := requests_posted w @ [?request],
              logged := logged w @ [Warning (''Unable to send events with error: '' @ m)]\<rparr>,
           self\<lparr>event_documents := [], number_of_buffered_events := 0\<rparr>)"
      using assms(1,2) sent
      by (simp add: FlushEvents_def Let_def log_def DEFAULT_REQUEST_TIMEOUT_def)
    then show ?thesis
      by (intro exI [of _ "Warning (''Unable to send events with error: '' @ m)"])
         (simp add: RequestException)
  next
    case (Raised e)
    with assms(4) show ?thesis by simp
  qed
qed

lemma FlushEvents_unencodable:
  assumes "event_documents self \<noteq> []" and "port self = Some p"
    and "\<not> list_all json_document (event_documents self)"
  shows "FlushEvents post w self = Inl (TypeError, w, self)"
  using assms by (simp add: FlushEvents_def Let_def requests_post_def)

lemma flush_url_configured:
  assumes "host self = Some server"
  shows "flush_url self p =
    ''http://'' @ server @ '':'' @ str_int p @
      (case url_prefix self of
         None \<Rightarrow> []
       | Some prefix \<Rightarrow> if prefix = [] then [] else ''/'' @ prefix)"
  using assms
  by (cases "url_prefix self") (simp_all add: flush_url_def Let_def truthy_def str_opt_def)

lemma WriteFieldValues_unfold:
  "WriteFieldValues post om d w self =
     (if number_of_buffered_events self + 1 > flush_interval self
      then FlushEvents post w
             (self\<lparr>event_documents := event_documents self @ [stamped self d],
                   number_of_buffered_events := number_of_buffered_events self + 1\<rparr>)
      else Inr (w, self\<lparr>event_documents := event_documents self @ [stamped self d],
                        number_of_buffered_events := number_of_buffered_events self + 1\<rparr>))"
  by (simp add: WriteFieldValues_def stamped_def Let_def)

lemma WriteFieldValues_accumulates:
  assumes "buffering N p self" "int (length (event_documents self)) < N"
  shows "WriteFieldValues post om d w self =
           Inr (w, self\<lparr>event_documents := event_documents self @ [stamped self d],
                         number_of_buffered_events := int (length (event_documents self)) + 1\<rparr>)"
  using assms by (simp add: WriteFieldValues_unfold buffering_def)

lemma WriteFieldValues_flushes:
  assumes "buffering N p self" "int (length (event_documents self)) = N"
    and "json_document d" and "answers post"
  shows "\<exists>entry. WriteFieldValues post om d w self =
           Inr (w\<lparr>requests_posted := requests_posted w @
                     [\<lparr>post_url = flush_url self p, post_json = event_documents self @ [stamped self d],
                       post_timeout = 300\<rparr>],
                   logged := logged w @ [entry]\<rparr>,
                self\<lparr>event_documents := [], number_of_buffered_events := 0\<rparr>)"
proof -
  let ?s = "self\<lparr>event_documents := event_documents self @ [stamped self d],
                   number_of_buffered_events := number_of_buffered_events self + 1\<rparr>"
  have run: "WriteFieldValues post om d w self = FlushEvents post w ?s"
    using assms(1,2) by (simp add: WriteFieldValues_unfold buffering_def)
  have nonempty: "event_documents ?s \<noteq> []" by simp
  have port: "port ?s = Some p" using assms(1) by (simp add: buffering_def)
  have json: "list_all json_document (event_documents ?s)"
    using assms(1,3) by (simp add: buffering_def json_document_stamped)
  have answer: "\<forall>e. post (requests_posted w)
            \<lparr>post_url = flush_url ?s p, post_json = event_documents ?s,
              post_timeout = 300\<rparr> \<noteq> Raised e"
    using assms(4) by (simp add: answers_def)
  from FlushEvents_nonempty [where self = ?s and p = p and post = post and w = w,
      OF nonempty port json answer]
  obtain entry where "FlushEvents post w ?s =
      Inr (w\<lparr>requests_posted := requests_posted w @
                [\<lparr>post_url = flush_url ?s p, post_json = event_documents ?s,
                  post_timeout = 300\<rparr>],
              logged := logged w @ [entry]\<rparr>,
           ?s\<lparr>event_documents := [], number_of_buffered_events := 0\<rparr>)"
    by blast
  with run have "WriteFieldValues post om d w self =
           Inr (w\<lparr>requests_posted := requests_posted w @
                     [\<lparr>post_url = flush_url self p, post_json = event_documents self @ [stamped self d],
                       post_timeout = 300\<rparr>],
                   logged := logged w @ [entry]\<rparr>,
                self\<lparr>event_documents := [], number_of_buffered_events := 0\<rparr>)"
    by simp
  then show ?thesis by blast
qed

lemma full_buffer_div: "(n + Suc k) div (n + 1) = Suc (k div (n + 1))"
proof -
  have "n + Suc k = (n + 1) + k" by simp
  then show ?thesis by (simp only: div_add_self1)
qed

lemma full_buffer_mod: "(n + Suc k) mod (n + 1) = k mod (n + 1)"
proof -
  have "n + Suc k = (n + 1) + k" by simp
  then show ?thesis by (simp only: mod_add_self1)
qed

lemma write_records_invariant:
  assumes "buffering N p self" and "answers post" and "list_all json_document ds"
  shows "\<exists>w' self' new.
           write_records post om ds w self = Inr (w', self') \<and>
           buffering N p self' \<and> index_name self' = index_name self \<and>
           requests_posted w' = requests_posted w @ new \<and>
           (\<forall>r \<in> set new. length (post_json r) = nat N + 1) \<and>
           length new = (length (event_documents self) + length ds) div (nat N + 1) \<and>
           length (event_documents self') =
             (length (event_documents self) + length ds) mod (nat N + 1) \<and>
           concat (map post_json new) @ event_documents self' =
             event_documents self @ map (stamped self) ds"
  using assms(1,3)
proof (induction ds arbitrary: w self)
  case Nil
  then have "length (event_documents self) < nat N + 1" unfolding buffering_def by linarith
  with Nil show ?case by simp
next
  case (Cons d ds)
  let ?b = "length (event_documents self)"
  from Cons.prems(1) have le: "int ?b \<le> N" by (simp add: buffering_def)
  from Cons.prems(2) have d: "json_document d" and ds: "list_all json_document ds" by simp_all
  show ?case
  proof (cases "int ?b < N")
    case True
    let ?s = "self\<lparr>event_documents := event_documents self @ [stamped self d],
                     number_of_buffered_events := int ?b + 1\<rparr>"
    have step: "WriteFieldValues post om d w self = Inr (w, ?s)"
      using WriteFieldValues_accumulates [OF Cons.prems(1) True] .
    have inv: "buffering N p ?s"
      using Cons.prems(1) True d by (simp add: buffering_def json_document_stamped)
    have st: "stamped ?s = stamped self" by (simp add: stamped_def fun_eq_iff)
    from Cons.IH [OF inv ds, of w] obtain w' self' new where
      ih: "write_records post om ds w ?s = Inr (w', self')"
        "buffering N p self'" "index_name self' = index_name ?s"
        "requests_posted w' = requests_posted w @ new"
        "\<forall>r \<in> set new. length (post_json r) = nat N + 1"
        "length new = (length (event_documents ?s) + length ds) div (nat N + 1)"
        "length (event_documents self') = (length (event_documents ?s) + length ds) mod (nat N + 1)"
        "concat (map post_json new) @ event_documents self' = event_documents ?s @ map (stamped ?s) ds"
      by blast
    show ?thesis
      apply (rule exI [of _ w'], rule exI [of _ self'], rule exI [of _ new])
      using ih step st by simp
  next
    case False
    with le have eq: "int ?b = N" by simp
    from WriteFieldValues_flushes [OF Cons.prems(1) eq d assms(2), of om w] obtain entry where
      step: "WriteFieldValues post om d w self =
           Inr (w\<lparr>requests_posted := requests_posted w @
                     [\<lparr>post_url = flush_url self p, post_json = event_documents self @ [stamped self d],
                       post_timeout = 300\<rparr>],
                   logged := logged w @ [entry]\<rparr>,
                self\<lparr>event_documents := [], number_of_buffered_events := 0\<rparr>)"
      by blast
    let ?r = "\<lparr>post_url = flush_url self p, post_json = event_documents self @ [stamped self d],
                       post_timeout = 300\<rparr>"
    let ?w = "w\<lparr>requests_posted := requests_posted w @ [?r], logged := logged w @ [entry]\<rparr>"
    let ?s = "self\<lparr>event_documents := [], number_of_buffered_events := 0\<rparr>"
    have N0: "0 \<le> N" using eq by simp
    have inv: "buffering N p ?s"
      using Cons.prems(1) N0 by (simp add: buffering_def)
    have st: "stamped ?s = stamped self" by (simp add: stamped_def fun_eq_iff)
    from Cons.IH [OF inv ds, of ?w] obtain w' self' new where
      ih: "write_records post om ds ?w ?s = Inr (w', self')"
        "buffering N p self'" "index_name self' = index_name ?s"
        "requests_posted w' = requests_posted ?w @ new"
        "\<forall>r \<in> set new. length (post_json r) = nat N + 1"
        "length new = (length (event_documents ?s) + length ds) div (nat N + 1)"
        "length (event_documents self') = (length (event_documents ?s) + length ds) mod (nat N + 1)"
        "concat (map post_json new) @ event_documents self' = event_documents ?s @ map (stamped ?s) ds"
      by blast
    have b: "?b = nat N" using eq by simp
    have len: "length (post_json ?r) = nat N + 1" using b by simp
    have d1: "(?b + length (d # ds)) div (nat N + 1) = Suc (length ds div (nat N + 1))"
      using b by (simp only: length_Cons full_buffer_div)
    have m1: "(?b + length (d # ds)) mod (nat N + 1) = length ds mod (nat N + 1)"
      using b by (simp only: length_Cons full_buffer_mod)
    show ?thesis
      apply (rule exI [of _ w'], rule exI [of _ self'], rule exI [of _ "?r # new"])
      using ih step st len d1 m1 by simp
  qed
qed

section \<open>The loops of GetFieldValues\<close>

















lemma SanitizeField_world:
  "lists (fst (SanitizeField decode dt an field w)) = lists w \<and>
   requests_posted (fst (SanitizeField decode dt an field w)) = requests_posted w"
  by (simp add: SanitizeField_def Let_def log_def split: pyval.splits)









section \<open>Example runs\<close>

lemma configured_fields:
  "flush_interval configured = 2" "port configured = Some 9880"
  "host configured = Some ''localhost''" "url_prefix configured = None"
  "event_documents configured = []" "number_of_buffered_events configured = 0"
  "index_name configured = None" "field_names configured = DEFAULT_FIELD_NAMES"
  "custom_fields configured = []"
  by (simp_all add: configured_def SharedFluentBitOutputModule_init_def
        SetServerInformation_def SetFlushInterval_def)

lemma three_records_json: "list_all json_document three_records"
  by (simp add: three_records_def json_document_def)

lemma unreachable_answers: "answers unreachable"
  by (simp add: answers_def unreachable_def)

lemma accepting_answers: "answers accepting"
  by (simp add: answers_def accepting_def)

section \<open>The properties\<close>

text \<open>
  C1. With a flush interval \<open>N \<ge> 1\<close> and an empty buffer to start from, writing any list of
  records returns, whatever response or \<open>RequestException\<close> each flush meets; every record
  is appended once, in order, and is either still in the buffer or in a posted request; a
  request is posted exactly when the buffer reaches \<open>N + 1\<close> documents, so after \<open>k\<close> records
  there have been \<open>k div (N + 1)\<close> requests of \<open>N + 1\<close> documents each and the buffer holds
  \<open>k mod (N + 1)\<close> documents, the counter agreeing with it; after exactly \<open>N + 1\<close> records
  the buffer is empty. The records are documents that \<open>json.dumps\<close> encodes, as every
  \<open>dict[str, str]\<close> is, and the port has been set: without either, the flush raises
  \<open>TypeError\<close> before it resets the buffer.
\<close>

theorem write_records_flush_policy:
  assumes "1 \<le> N" and "flush_interval self = N" and "port self = Some p"
    and "event_documents self = []" and "number_of_buffered_events self = 0"
    and "answers post" and "list_all json_document records"
  shows "\<exists>w' self' new.
    write_records post output_mediator records w self = Inr (w', self') \<and>
    requests_posted w' = requests_posted w @ new \<and>
    length new = length records div (nat N + 1) \<and>
    (\<forall>request \<in> set new. length (post_json request) = nat N + 1) \<and>
    length (event_documents self') = length records mod (nat N + 1) \<and>
    length (event_documents self') \<le> nat N \<and>
    number_of_buffered_events self' = int (length (event_documents self')) \<and>
    concat (map post_json new) @ event_documents self' = map (stamped self) records \<and>
    (length records = nat N + 1 \<longrightarrow> event_documents self' = [] \<and> length new = 1)"
proof -
  have inv: "buffering N p self"
    using assms(1-5) by (simp add: buffering_def)
  from write_records_invariant [OF inv assms(6,7), of output_mediator w]
  obtain w' self' new where
    run: "write_records post output_mediator records w self = Inr (w', self')"
    and inv': "buffering N p self'"
    and posted: "requests_posted w' = requests_posted w @ new"
    and sizes: "\<forall>r \<in> set new. length (post_json r) = nat N + 1"
    and count: "length new = (length (event_documents self) + length records) div (nat N + 1)"
    and rest: "length (event_documents self') =
                 (length (event_documents self) + length records) mod (nat N + 1)"
    and all: "concat (map post_json new) @ event_documents self' =
                 event_documents self @ map (stamped self) records"
    by blast
  have count': "length new = length records div (nat N + 1)"
    using count assms(4) by simp
  have rest': "length (event_documents self') = length records mod (nat N + 1)"
    using rest assms(4) by simp
  have bound: "length (event_documents self') \<le> nat N"
    using inv' unfolding buffering_def by linarith
  have counter: "number_of_buffered_events self' = int (length (event_documents self'))"
    using inv' by (simp add: buffering_def)
  have all': "concat (map post_json new) @ event_documents self' = map (stamped self) records"
    using all assms(4) by simp
  have full: "length records = nat N + 1 \<longrightarrow> event_documents self' = [] \<and> length new = 1"
  proof
    assume eq: "length records = nat N + 1"
    have "length (event_documents self') = 0"
      unfolding rest' eq by simp
    moreover have "length new = 1"
      unfolding count' eq by simp
    ultimately show "event_documents self' = [] \<and> length new = 1" by simp
  qed
  show ?thesis
    by (rule exI [of _ w'], rule exI [of _ self'], rule exI [of _ new])
       (intro conjI run posted count' sizes rest' bound counter all' full)
qed

theorem write_records_flush_policy_witness:
  "(1::int) \<le> 2 \<and> flush_interval configured = 2 \<and> port configured = Some 9880 \<and>
   event_documents configured = [] \<and> number_of_buffered_events configured = 0 \<and>
   answers unreachable \<and> list_all json_document three_records \<and>
   (\<exists>w' self' new.
      write_records unreachable () three_records class_body configured = Inr (w', self') \<and>
      requests_posted w' = requests_posted class_body @ new \<and>
      length new = length three_records div (nat 2 + 1) \<and>
      (\<forall>request \<in> set new. length (post_json request) = nat 2 + 1) \<and>
      length (event_documents self') = length three_records mod (nat 2 + 1) \<and>
      length (event_documents self') \<le> nat 2 \<and>
      number_of_buffered_events self' = int (length (event_documents self')) \<and>
      concat (map post_json new) @ event_documents self' = map (stamped configured) three_records \<and>
      (length three_records = nat 2 + 1 \<longrightarrow> event_documents self' = [] \<and> length new = 1))"
proof -
  have h1: "(1::int) \<le> 2" by simp
  have h2: "flush_interval configured = 2" by (rule configured_fields)
  have h3: "port configured = Some 9880" by (rule configured_fields)
  have h4: "event_documents configured = []" by (rule configured_fields)
  have h5: "number_of_buffered_events configured = 0" by (rule configured_fields)
  have h6: "answers unreachable" by (rule unreachable_answers)
  have h7: "list_all json_document three_records" by (rule three_records_json)
  note write_records_flush_policy [OF h1 h2 h3 h4 h5 h6 h7, of "()" class_body]
  with h1 h2 h3 h4 h5 h6 h7 show ?thesis by (intro conjI)
qed

text \<open>
  C3. A flush of a non-empty buffer of documents that \<open>json.dumps\<close> encodes, on a sink whose
  host and port are set, posts the whole buffer in one request to \<open>http://{host}:{port}\<close>,
  with \<open>/{prefix}\<close> appended when the URL prefix is a non-empty string. When the request
  meets a response or a \<open>RequestException\<close>, the flush logs at debug level for status code
  200 or 201 and a warning for any other status code and for the exception, and on each of
  these outcomes it returns to its caller with the buffer empty and the counter zero, having
  made no second request.
\<close>

theorem FlushEvents_posts_once_and_resets:
  assumes "event_documents self \<noteq> []" and "host self = Some server" and "port self = Some p"
    and "list_all json_document (event_documents self)" and "answers post"
  shows "let url = ''http://'' @ server @ '':'' @ str_int p @
                     (case url_prefix self of
                        None \<Rightarrow> []
                      | Some prefix \<Rightarrow> if prefix = [] then [] else ''/'' @ prefix);
             request = \<lparr>post_url = url, post_json = event_documents self, post_timeout = 300\<rparr>;
             answer = post (requests_posted w) request
         in \<exists>entry.
              FlushEvents post w self =
                Inr (w\<lparr>requests_posted := requests_posted w @ [request],
                        logged := logged w @ [entry]\<rparr>,
                     self\<lparr>event_documents := [], number_of_buffered_events := 0\<rparr>) \<and>
              (\<forall>status_code body. answer = Response status_code body \<longrightarrow>
                 (if status_code = 200 \<or> status_code = 201
                  then (\<exists>m. entry = Debug m) else (\<exists>m. entry = Warning m))) \<and>
              (\<forall>m. answer = RequestException m \<longrightarrow> (\<exists>m'. entry = Warning m'))"
proof -
  define request where "request =
    \<lparr>post_url = flush_url self p, post_json = event_documents self, post_timeout = 300\<rparr>"
  have answer: "\<forall>e. post (requests_posted w)
            \<lparr>post_url = flush_url self p, post_json = event_documents self,
              post_timeout = 300\<rparr> \<noteq> Raised e"
    using assms(5) by (simp add: answers_def)
  from FlushEvents_nonempty [where self = self and p = p and post = post and w = w,
      OF assms(1,3,4) answer]
  obtain entry where
    run: "FlushEvents post w self =
      Inr (w\<lparr>requests_posted := requests_posted w @ [request],
              logged := logged w @ [entry]\<rparr>,
           self\<lparr>event_documents := [], number_of_buffered_events := 0\<rparr>)"
    and kind: "case post (requests_posted w) request of
       Response status_code body \<Rightarrow>
         if status_code = 200 \<or> status_code = 201
         then (\<exists>m. entry = Debug m) else (\<exists>m. entry = Warning m)
     | RequestException m \<Rightarrow> (\<exists>m'. entry = Warning m')
     | Raised e \<Rightarrow> False"
    unfolding request_def by blast
  have k1: "\<forall>status_code body. post (requests_posted w) request = Response status_code body \<longrightarrow>
                 (if status_code = 200 \<or> status_code = 201
                  then (\<exists>m. entry = Debug m) else (\<exists>m. entry = Warning m))"
    using kind by (cases "post (requests_posted w) request") simp_all
  have k2: "\<forall>m. post (requests_posted w) request = RequestException m \<longrightarrow>
              (\<exists>m'. entry = Warning m')"
    using kind by (cases "post (requests_posted w) request") simp_all
  from run k1 k2 have "\<exists>entry.
      FlushEvents post w self =
        Inr (w\<lparr>requests_posted := requests_posted w @ [request],
                logged := logged w @ [entry]\<rparr>,
             self\<lparr>event_documents := [], number_of_buffered_events := 0\<rparr>) \<and>
      (\<forall>status_code body. post (requests_posted w) request = Response status_code body \<longrightarrow>
                 (if status_code = 200 \<or> status_code = 201
                  then (\<exists>m. entry = Debug m) else (\<exists>m. entry = Warning m))) \<and>
      (\<forall>m. post (requests_posted w) request = RequestException m \<longrightarrow>
              (\<exists>m'. entry = Warning m'))"
    by blast
  then show ?thesis
    unfolding Let_def request_def flush_url_configured [OF assms(2)] .
qed

theorem FlushEvents_posts_once_and_resets_witness:
  "event_documents (configured\<lparr>event_documents := three_records\<rparr>) \<noteq> [] \<and>
   host (configured\<lparr>event_documents := three_records\<rparr>) = Some ''localhost'' \<and>
   port (configured\<lparr>event_documents := three_records\<rparr>) = Some 9880 \<and>
   list_all json_document (event_documents (configured\<lparr>event_documents := three_records\<rparr>)) \<and>
   answers unreachable \<and>
   (\<exists>entry.
      FlushEvents unreachable class_body (configured\<lparr>event_documents := three_records\<rparr>) =
        Inr (class_body\<lparr>requests_posted :=
                [\<lparr>post_url = ''http://localhost:9880'', post_json = three_records,
                  post_timeout = 300\<rparr>],
              logged := [entry]\<rparr>,
             configured\<lparr>event_documents := [], number_of_buffered_events := 0\<rparr>) \<and>
      (\<exists>m. entry = Warning m))"
proof -
  let ?self = "configured\<lparr>event_documents := three_records\<rparr>"
  have h1: "event_documents ?self \<noteq> []" by (simp add: three_records_def)
  have h2: "host ?self = Some ''localhost''" by (simp add: configured_fields)
  have h3: "port ?self = Some 9880" by (simp add: configured_fields)
  have h4: "list_all json_document (event_documents ?self)" by (simp add: three_records_json)
  have h5: "answers unreachable" by (rule unreachable_answers)
  have s: "str_int 9880 = ''9880''" by (simp add: str_int_def str_nat.simps)
  have url: "''http://'' @ ''localhost'' @ '':'' @ str_int 9880 @
      (case url_prefix ?self of
         None \<Rightarrow> []
       | Some prefix \<Rightarrow> if prefix = [] then [] else ''/'' @ prefix) = ''http://localhost:9880''"
    by (simp add: configured_fields s)
  have before: "requests_posted class_body = []" "logged class_body = []"
    by (simp_all add: class_body_def)
  from FlushEvents_posts_once_and_resets [OF h1 h2 h3 h4 h5, of class_body]
  obtain entry where
    run: "FlushEvents unreachable class_body ?self =
        Inr (class_body\<lparr>requests_posted := requests_posted class_body @
                [\<lparr>post_url = ''http://localhost:9880'', post_json = event_documents ?self,
                  post_timeout = 300\<rparr>],
              logged := logged class_body @ [entry]\<rparr>,
             ?self\<lparr>event_documents := [], number_of_buffered_events := 0\<rparr>)"
    and other: "\<forall>status_code body. unreachable (requests_posted class_body)
                 \<lparr>post_url = ''http://localhost:9880'', post_json = event_documents ?self,
                   post_timeout = 300\<rparr> = Response status_code body \<longrightarrow>
                 (if status_code = 200 \<or> status_code = 201
                  then (\<exists>m. entry = Debug m) else (\<exists>m. entry = Warning m))"
    and kind: "\<forall>m. unreachable (requests_posted class_body)
                 \<lparr>post_url = ''http://localhost:9880'', post_json = event_documents ?self,
                   post_timeout = 300\<rparr> = RequestException m \<longrightarrow> (\<exists>m'. entry = Warning m')"
    unfolding Let_def url by (elim exE conjE) (rule that)
  from kind have warning: "\<exists>m. entry = Warning m"
    by (simp add: unreachable_def)
  from run have "FlushEvents unreachable class_body ?self =
        Inr (class_body\<lparr>requests_posted :=
                [\<lparr>post_url = ''http://localhost:9880'', post_json = three_records,
                  post_timeout = 300\<rparr>],
              logged := [entry]\<rparr>,
             configured\<lparr>event_documents := [], number_of_buffered_events := 0\<rparr>)"
    by (simp add: before)
  with warning have "\<exists>entry.
      FlushEvents unreachable class_body ?self =
        Inr (class_body\<lparr>requests_posted :=
                [\<lparr>post_url = ''http://localhost:9880'', post_json = three_records,
                  post_timeout = 300\<rparr>],
              logged := [entry]\<rparr>,
             configured\<lparr>event_documents := [], number_of_buffered_events := 0\<rparr>) \<and>
      (\<exists>m. entry = Warning m)"
    by blast
  with h1 h2 h3 h4 h5 show ?thesis by (intro conjI)
qed

text \<open>
  C9. \<open>Close\<close> is one call of the flush. On an empty buffer it posts nothing, logs nothing
  and leaves the sink as it was. On a non-empty buffer of documents that \<open>json.dumps\<close>
  encodes, with the port set and a request that meets a response or a \<open>RequestException\<close>,
  it posts the whole buffer in one request and empties it.
\<close>

theorem Close_flushes_the_remainder:
  "Close post w self = FlushEvents post w self \<and>
   (event_documents self = [] \<longrightarrow> Close post w self = Inr (w, self)) \<and>
   (event_documents self \<noteq> [] \<and> port self = Some p \<and>
    list_all json_document (event_documents self) \<and> answers post \<longrightarrow>
      (\<exists>w' self'. Close post w self = Inr (w', self') \<and>
         requests_posted w' = requests_posted w @
           [\<lparr>post_url = flush_url self p, post_json = event_documents self,
             post_timeout = 300\<rparr>] \<and>
         event_documents self' = [] \<and> number_of_buffered_events self' = 0))"
proof (intro conjI impI)
  show "Close post w self = FlushEvents post w self" by (simp add: Close_def)
next
  assume "event_documents self = []"
  then show "Close post w self = Inr (w, self)"
    by (simp add: Close_def FlushEvents_empty)
next
  assume a: "event_documents self \<noteq> [] \<and> port self = Some p \<and>
    list_all json_document (event_documents self) \<and> answers post"
  then have answer: "\<forall>e. post (requests_posted w)
            \<lparr>post_url = flush_url self p, post_json = event_documents self,
              post_timeout = 300\<rparr> \<noteq> Raised e"
    by (simp add: answers_def)
  from a have a1: "event_documents self \<noteq> []" and a2: "port self = Some p"
    and a3: "list_all json_document (event_documents self)" by simp_all
  from FlushEvents_nonempty [where self = self and p = p and post = post and w = w,
      OF a1 a2 a3 answer]
  obtain entry where "FlushEvents post w self =
      Inr (w\<lparr>requests_posted := requests_posted w @
                [\<lparr>post_url = flush_url self p, post_json = event_documents self,
                  post_timeout = 300\<rparr>],
              logged := logged w @ [entry]\<rparr>,
           self\<lparr>event_documents := [], number_of_buffered_events := 0\<rparr>)"
    by blast
  then show "\<exists>w' self'. Close post w self = Inr (w', self') \<and>
         requests_posted w' = requests_posted w @
           [\<lparr>post_url = flush_url self p, post_json = event_documents self,
             post_timeout = 300\<rparr>] \<and>
         event_documents self' = [] \<and> number_of_buffered_events self' = 0"
    by (simp add: Close_def)
qed

theorem Close_flushes_the_remainder_witness:
  "event_documents configured = [] \<and>
   Close accepting class_body configured = Inr (class_body, configured) \<and>
   event_documents (configured\<lparr>event_documents := three_records\<rparr>) \<noteq> [] \<and>
   port (configured\<lparr>event_documents := three_records\<rparr>) = Some 9880 \<and>
   list_all json_document (event_documents (configured\<lparr>event_documents := three_records\<rparr>)) \<and>
   answers accepting \<and>
   (\<exists>w' self'.
      Close accepting class_body (configured\<lparr>event_documents := three_records\<rparr>)
        = Inr (w', self') \<and>
      requests_posted w' = requests_posted class_body @
        [\<lparr>post_url = flush_url (configured\<lparr>event_documents := three_records\<rparr>) 9880,
          post_json = event_documents (configured\<lparr>event_documents := three_records\<rparr>),
          post_timeout = 300\<rparr>] \<and>
      event_documents self' = [] \<and> number_of_buffered_events self' = 0)"
proof -
  let ?self = "configured\<lparr>event_documents := three_records\<rparr>"
  have h1: "event_documents configured = []" by (simp add: configured_fields)
  have h2: "event_documents ?self \<noteq> []" by (simp add: three_records_def)
  have h3: "port ?self = Some 9880" by (simp add: configured_fields)
  have h4: "list_all json_document (event_documents ?self)" by (simp add: three_records_json)
  have h5: "answers accepting" by (rule accepting_answers)
  from Close_flushes_the_remainder [of accepting class_body configured] h1
  have c1: "Close accepting class_body configured = Inr (class_body, configured)" by blast
  from Close_flushes_the_remainder [of accepting class_body ?self 9880] h2 h3 h4 h5
  have c2: "\<exists>w' self'.
      Close accepting class_body ?self = Inr (w', self') \<and>
      requests_posted w' = requests_posted class_body @
        [\<lparr>post_url = flush_url ?self 9880, post_json = event_documents ?self,
          post_timeout = 300\<rparr>] \<and>
      event_documents self' = [] \<and> number_of_buffered_events self' = 0" by blast
  from h1 c1 h2 h3 h4 h5 c2 show ?thesis by (intro conjI)
qed

text \<open>
  C5. The sanitizer turns a bytes value into the text its decoding gives and returns any
  other value, with the world, as it is; it has no failing outcome; applied to its own
  result it returns that result and logs nothing.
\<close>

theorem SanitizeField_idempotent:
  "snd (SanitizeField decode dt an (PyBytes b) w) = PyStr (decode b) \<and>
   ((\<forall>b. field \<noteq> PyBytes b) \<longrightarrow> SanitizeField decode dt an field w = (w, field)) \<and>
   SanitizeField decode dt' an' (snd (SanitizeField decode dt an field w)) w' =
     (w', snd (SanitizeField decode dt an field w))"
  by (cases field) (simp_all add: SanitizeField_def Let_def)

theorem SanitizeField_idempotent_witness:
  "snd (SanitizeField question_marks ''linux:utmp:event'' ''terminal'' (PyBytes [0xff, 0xfe])
          class_body) = PyStr ''??'' \<and>
   SanitizeField question_marks ''linux:utmp:event'' ''username'' (PyStr ''root'') class_body
     = (class_body, PyStr ''root'') \<and>
   SanitizeField question_marks ''linux:utmp:event'' ''terminal''
     (snd (SanitizeField question_marks ''linux:utmp:event'' ''terminal''
             (PyBytes [0xff, 0xfe]) class_body)) class_body = (class_body, PyStr ''??'')"
  using SanitizeField_idempotent [of question_marks "''linux:utmp:event''" "''terminal''"
      "[0xff, 0xfe]" class_body "PyStr ''root''" "''linux:utmp:event''" "''terminal''" class_body]
    SanitizeField_idempotent [of question_marks "''linux:utmp:event''" "''terminal''"
      "[0xff, 0xfe]" class_body "PyBytes [0xff, 0xfe]" "''linux:utmp:event''" "''terminal''"
      class_body]
  by (simp add: question_marks_def SanitizeField_def)

text \<open>
  C8. On a sink whose timeline identifier is not 0 (the option is a positive integer, and
  \<open>ParseOptions\<close> calls \<open>SetTimelineIdentifier\<close> only with an identifier that is true),
  \<open>GetMissingArguments\<close> returns \<open>['timeline_id']\<close> if and only if no identifier has been
  set, and the empty list otherwise. It returns \<open>['timeline_id']\<close> on a new sink and the
  empty list after \<open>SetTimelineIdentifier(i)\<close> for every \<open>i\<close> other than 0; and whatever value
  was parsed for the option, after \<open>ParseOptions\<close> has run on a new sink it returns
  \<open>['timeline_id']\<close> if and only if no identifier has been set.
\<close>

theorem GetMissingArguments_iff_not_set:
  "(timeline_identifier self \<noteq> Some 0 \<longrightarrow>
      (GetMissingArguments self = [''timeline_id''] \<longleftrightarrow> timeline_identifier self = None) \<and>
      (GetMissingArguments self = [] \<longleftrightarrow> timeline_identifier self \<noteq> None)) \<and>
   GetMissingArguments (snd (FluentBitTimesketchOutputModule_init w)) = [''timeline_id''] \<and>
   timeline_identifier (snd (FluentBitTimesketchOutputModule_init w)) = None \<and>
   (i \<noteq> 0 \<longrightarrow>
      timeline_identifier (snd (SetTimelineIdentifier i w self)) = Some i \<and>
      GetMissingArguments (snd (SetTimelineIdentifier i w self)) = []) \<and>
   (GetMissingArguments
      (snd (ParseOptions_timeline_id parsed w' (snd (FluentBitTimesketchOutputModule_init w))))
        = [''timeline_id''] \<longleftrightarrow>
    timeline_identifier
      (snd (ParseOptions_timeline_id parsed w' (snd (FluentBitTimesketchOutputModule_init w))))
        = None)"
proof (intro conjI impI)
  assume "timeline_identifier self \<noteq> Some 0"
  then show "GetMissingArguments self = [''timeline_id''] \<longleftrightarrow> timeline_identifier self = None"
    by (cases "timeline_identifier self") (simp_all add: GetMissingArguments_def)
next
  assume "timeline_identifier self \<noteq> Some 0"
  then show "GetMissingArguments self = [] \<longleftrightarrow> timeline_identifier self \<noteq> None"
    by (cases "timeline_identifier self") (simp_all add: GetMissingArguments_def)
next
  show "GetMissingArguments (snd (FluentBitTimesketchOutputModule_init w)) = [''timeline_id'']"
    by (simp add: GetMissingArguments_def FluentBitTimesketchOutputModule_init_def
          SharedFluentBitOutputModule_init_def sink.extend_def ts_sink.fields_def)
next
  show "timeline_identifier (snd (FluentBitTimesketchOutputModule_init w)) = None"
    by (simp add: FluentBitTimesketchOutputModule_init_def
          SharedFluentBitOutputModule_init_def sink.extend_def ts_sink.fields_def)
next
  assume "i \<noteq> 0"
  then show "timeline_identifier (snd (SetTimelineIdentifier i w self)) = Some i"
    by (simp add: SetTimelineIdentifier_def Let_def)
next
  assume "i \<noteq> 0"
  then show "GetMissingArguments (snd (SetTimelineIdentifier i w self)) = []"
    by (simp add: GetMissingArguments_def SetTimelineIdentifier_def Let_def)
next
  have new: "timeline_identifier (snd (FluentBitTimesketchOutputModule_init w)) = None"
    by (simp add: FluentBitTimesketchOutputModule_init_def
          SharedFluentBitOutputModule_init_def sink.extend_def ts_sink.fields_def)
  show "GetMissingArguments
      (snd (ParseOptions_timeline_id parsed w' (snd (FluentBitTimesketchOutputModule_init w))))
        = [''timeline_id''] \<longleftrightarrow>
    timeline_identifier
      (snd (ParseOptions_timeline_id parsed w' (snd (FluentBitTimesketchOutputModule_init w))))
        = None"
  proof (cases parsed)
    case None
    then show ?thesis
      using new by (simp add: ParseOptions_timeline_id_def GetMissingArguments_def)
  next
    case (Some j)
    then show ?thesis
      using new
      by (cases "j = 0")
         (simp_all add: ParseOptions_timeline_id_def GetMissingArguments_def
            SetTimelineIdentifier_def Let_def)
  qed
qed

theorem GetMissingArguments_iff_not_set_witness:
  "timeline_identifier configured_ts \<noteq> Some 0 \<and>
   GetMissingArguments configured_ts = [] \<and> timeline_identifier configured_ts \<noteq> None \<and>
   (42::int) \<noteq> 0 \<and>
   GetMissingArguments
     (snd (SetTimelineIdentifier 42 class_body (snd (FluentBitTimesketchOutputModule_init class_body))))
     = []"
proof -
  have t: "timeline_identifier configured_ts = Some 42"
    by (simp add: configured_ts_def FluentBitTimesketchOutputModule_init_def
        SharedFluentBitOutputModule_init_def SetServerInformation_def SetTimelineIdentifier_def
        SetIndexName_def Let_def sink.extend_def ts_sink.fields_def)
  have h1: "timeline_identifier configured_ts \<noteq> Some 0" using t by simp
  have h2: "timeline_identifier configured_ts \<noteq> None" using t by simp
  have h3: "(42::int) \<noteq> 0" by simp
  from GetMissingArguments_iff_not_set [of configured_ts class_body 42] h1 h2
  have c1: "GetMissingArguments configured_ts = []" by blast
  from GetMissingArguments_iff_not_set [of "snd (FluentBitTimesketchOutputModule_init class_body)"
      class_body 42] h3
  have c2: "GetMissingArguments
     (snd (SetTimelineIdentifier 42 class_body (snd (FluentBitTimesketchOutputModule_init class_body))))
     = []" by blast
  from h1 c1 h2 h3 c2 show ?thesis by (intro conjI)
qed

text \<open>
  At 0, which \<open>ParseOptions\<close> never passes, the identifier has been set and is reported
  missing.
\<close>

lemma GetMissingArguments_set_to_zero:
  "timeline_identifier
     (snd (SetTimelineIdentifier 0 class_body (snd (FluentBitTimesketchOutputModule_init class_body))))
     = Some 0 \<and>
   GetMissingArguments
     (snd (SetTimelineIdentifier 0 class_body (snd (FluentBitTimesketchOutputModule_init class_body))))
     = [''timeline_id'']"
  by (simp add: GetMissingArguments_def SetTimelineIdentifier_def Let_def)






















end
